theory Spec2Isabelle
  imports Complex_Main
begin

section \<open>Python values, exceptions and output\<close>

text \<open>
  The directions layer of \<^verbatim>\<open>src/gmaps/directions.py\<close> is a widget whose attributes are
  validated traits. Its arguments are dynamically typed, so they are modelled by a small
  universe of Python values. A coordinate is a Python float; the code only compares
  coordinates (\<^verbatim>\<open>min\<close>, \<^verbatim>\<open>max\<close>, the range check of a point), so a coordinate is a
  \<^typ>\<open>real\<close> here. A (latitude, longitude) pair is the tuple of two floats.
\<close>

type_synonym point = "real \<times> real"

datatype pyval =
    VNone
  | VBool bool
  | VStr string
  | VFloat real
  | VTuple "pyval list"
  | VList "pyval list"

definition pt :: "point \<Rightarrow> pyval" where
  "pt p = VTuple [VFloat (fst p), VFloat (snd p)]"

definition pts :: "point list \<Rightarrow> pyval" where
  "pts ps = VList (map pt ps)"

datatype error =
    IndexError
  | TypeError
  | ValueError string
  | TraitError
  | DirectionsServiceException string

datatype event = DeprecationWarning string | Print string

definition warn_obsolete_data :: event where
  \<open>warn_obsolete_data = DeprecationWarning
     ''The "data" traitlet is deprecated, and will be removed in jupyter-gmaps 0.9.0. Use "locations" instead.''\<close>

definition warn_obsolete_waypoints :: event where
  \<open>warn_obsolete_waypoints = DeprecationWarning
     ''Passing "None" to waypoints is deprecated, and will be removed in jupyter-gmaps 0.9.0. Pass an empty list.''\<close>

definition ALLOWED_TRAVEL_MODES :: "string set" where
  "ALLOWED_TRAVEL_MODES = {''BICYCLING'', ''DRIVING'', ''TRANSIT'', ''WALKING''}"

definition DEFAULT_TRAVEL_MODE :: string where
  "DEFAULT_TRAVEL_MODE = ''DRIVING''"

subsection \<open>Sequences: indexing, slicing, min and max\<close>

text \<open>
  \<^verbatim>\<open>xs[i]\<close> counts a negative index from the end and raises IndexError out of range;
  \<^verbatim>\<open>xs[i:j]\<close> clips both bounds to the sequence and never raises.
\<close>

definition py_getitem :: "'a list \<Rightarrow> int \<Rightarrow> error + 'a" where
  "py_getitem xs i =
     (let k = (if i < 0 then i + int (length xs) else i)
      in if k < 0 \<or> int (length xs) \<le> k then Inl IndexError else Inr (xs ! nat k))"

definition clip :: "nat \<Rightarrow> int \<Rightarrow> nat" where
  "clip n i = (if i < 0 then nat (max (i + int n) 0) else min (nat i) n)"

definition py_slice :: "'a list \<Rightarrow> int \<Rightarrow> int \<Rightarrow> 'a list" where
  "py_slice xs i j = drop (clip (length xs) i) (take (clip (length xs) j) xs)"

text \<open>
  \<^verbatim>\<open>min(iterable)\<close> keeps the first item and replaces it by every later item that is
  smaller; \<^verbatim>\<open>max\<close> by every later item that is greater. Both raise ValueError on an
  empty iterable.
\<close>

definition py_min :: "real list \<Rightarrow> error + real" where
  "py_min xs =
     (case xs of
        [] \<Rightarrow> Inl (ValueError ''min() arg is an empty sequence'')
      | x # rest \<Rightarrow> Inr (foldl (\<lambda>m y. if y < m then y else m) x rest))"

definition py_max :: "real list \<Rightarrow> error + real" where
  "py_max xs =
     (case xs of
        [] \<Rightarrow> Inl (ValueError ''max() arg is an empty sequence'')
      | x # rest \<Rightarrow> Inr (foldl (\<lambda>m y. if m < y then y else m) x rest))"

definition bind_err :: "error + 'a \<Rightarrow> ('a \<Rightarrow> error + 'b) \<Rightarrow> error + 'b" where
  "bind_err m f = (case m of Inl e \<Rightarrow> Inl e | Inr x \<Rightarrow> f x)"

section \<open>The legacy data argument\<close>

text \<open>
  \<^verbatim>\<open>Directions._destructure_data\<close> (lines 131-136): \<^verbatim>\<open>data[0]\<close>, \<^verbatim>\<open>data[-1]\<close> and
  \<^verbatim>\<open>data[1:-1]\<close>. \<open>destructure_seq\<close> is the function on the items of a sequence;
  \<open>destructure_data\<close> applies it to a Python value: a list, a tuple and a string are
  sequences (a slice of one is of the same type, an item of a string is a string of one
  character), the other values cannot be subscripted.
\<close>

definition destructure_seq :: "'a list \<Rightarrow> error + ('a \<times> 'a \<times> 'a list)" where
  "destructure_seq xs =
     bind_err (py_getitem xs 0) (\<lambda>first.
     bind_err (py_getitem xs (- 1)) (\<lambda>final.
     Inr (first, final, py_slice xs 1 (- 1))))"

fun destructure_data :: "pyval \<Rightarrow> error + (pyval \<times> pyval \<times> pyval)" where
  "destructure_data (VList xs) =
     bind_err (destructure_seq xs) (\<lambda>(a, b, c). Inr (a, b, VList c))"
| "destructure_data (VTuple xs) =
     bind_err (destructure_seq xs) (\<lambda>(a, b, c). Inr (a, b, VTuple c))"
| "destructure_data (VStr cs) =
     bind_err (destructure_seq cs) (\<lambda>(a, b, c). Inr (VStr [a], VStr [b], VStr c))"
| "destructure_data VNone = Inl TypeError"
| "destructure_data (VBool b) = Inl TypeError"
| "destructure_data (VFloat x) = Inl TypeError"

section \<open>Trait types\<close>

text \<open>
  Modelled from the spec: the trait type \<^verbatim>\<open>geotraitlets.Point\<close> of lines 94-95 is declared
  in a module of the package that is not among the sources. The spec says that the layer
  validates geographic inputs; the docstring of the class (lines 64-68) gives the ranges:
  a latitude between -90 and 90, a longitude between -180 and 180. A point is valid when
  both hold; any other value is refused with the framework's TraitError.
\<close>

definition valid_point :: "point \<Rightarrow> bool" where
  "valid_point p = (- 90 \<le> fst p \<and> fst p \<le> 90 \<and> - 180 \<le> snd p \<and> snd p \<le> 180)"

definition Point_validate :: "pyval \<Rightarrow> error + point" where
  "Point_validate v =
     (case v of
        VTuple [VFloat lat, VFloat lon] \<Rightarrow>
          if valid_point (lat, lon) then Inr (lat, lon) else Inl TraitError
      | _ \<Rightarrow> Inl TraitError)"

text \<open>
  Modelled from the spec: the trait type \<^verbatim>\<open>geotraitlets.LocationArray\<close> of line 96 is
  declared in the same missing module. A location array is a list of valid points.
  \<^verbatim>\<open>_valid_waypoints\<close> (lines 138-144) handles the proposal \<^verbatim>\<open>None\<close>, so the trait type
  lets \<^verbatim>\<open>None\<close> through to it; any other value is refused with TraitError.
\<close>

fun validate_each :: "pyval list \<Rightarrow> error + point list" where
  "validate_each [] = Inr []"
| "validate_each (v # vs) =
     bind_err (Point_validate v) (\<lambda>p.
     bind_err (validate_each vs) (\<lambda>ps. Inr (p # ps)))"

definition LocationArray_validate :: "pyval \<Rightarrow> error + point list option" where
  "LocationArray_validate v =
     (case v of
        VNone \<Rightarrow> Inr None
      | VList vs \<Rightarrow> bind_err (validate_each vs) (\<lambda>ps. Inr (Some ps))
      | _ \<Rightarrow> Inl TraitError)"

text \<open>
  The traits of the framework itself, with the parameters of lines 97-106:
  \<^verbatim>\<open>List(minlen=2, allow_none=True)\<close> takes \<^verbatim>\<open>None\<close> or a list (a tuple is cast to a
  list) of at least two items, \<^verbatim>\<open>Bool\<close> a boolean, \<^verbatim>\<open>Enum\<close> one of the allowed
  values.
\<close>

definition data_validate :: "pyval \<Rightarrow> error + pyval list option" where
  "data_validate v =
     (case v of
        VNone \<Rightarrow> Inr None
      | VList xs \<Rightarrow> if 2 \<le> length xs then Inr (Some xs) else Inl TraitError
      | VTuple xs \<Rightarrow> if 2 \<le> length xs then Inr (Some xs) else Inl TraitError
      | _ \<Rightarrow> Inl TraitError)"

definition Bool_validate :: "pyval \<Rightarrow> error + bool" where
  "Bool_validate v = (case v of VBool b \<Rightarrow> Inr b | _ \<Rightarrow> Inl TraitError)"

definition travel_mode_validate :: "pyval \<Rightarrow> error + string" where
  "travel_mode_validate v =
     (case v of
        VStr m \<Rightarrow> if m \<in> ALLOWED_TRAVEL_MODES then Inr m else Inl TraitError
      | _ \<Rightarrow> Inl TraitError)"

section \<open>The widget state and its observers\<close>

record directions =
  start :: point
  end_point :: point
  waypoints :: "point list"
  data :: "pyval list option"
  data_bounds :: "point list"
  avoid_ferries :: bool
  avoid_highways :: bool
  avoid_tolls :: bool
  optimize_waypoints :: bool
  travel_mode :: string
  layer_status :: string

text \<open>
  \<^verbatim>\<open>Directions._calc_bounds\<close> (lines 155-165), the observer of \<^verbatim>\<open>start\<close>, \<^verbatim>\<open>end\<close> and
  \<^verbatim>\<open>waypoints\<close>. The field \<open>end_point\<close> is the trait \<^verbatim>\<open>end\<close>.
\<close>

definition all_data :: "directions \<Rightarrow> point list" where
  "all_data s = [start s] @ waypoints s @ [end_point s]"

definition calc_bounds :: "directions \<Rightarrow> error + directions" where
  "calc_bounds s =
     bind_err (py_min (map fst (all_data s))) (\<lambda>min_latitude.
     bind_err (py_min (map snd (all_data s))) (\<lambda>min_longitude.
     bind_err (py_max (map fst (all_data s))) (\<lambda>max_latitude.
     bind_err (py_max (map snd (all_data s))) (\<lambda>max_longitude.
     Inr (s\<lparr>data_bounds := [(min_latitude, min_longitude), (max_latitude, max_longitude)]\<rparr>)))))"

text \<open>
  \<^verbatim>\<open>Directions._valid_waypoints\<close> (lines 138-144), the validator of \<^verbatim>\<open>waypoints\<close>: it
  prints, and replaces the proposal \<^verbatim>\<open>None\<close> by the empty list after a warning.
\<close>

definition valid_waypoints :: "point list option \<Rightarrow> event list \<times> point list" where
  "valid_waypoints proposal =
     (case proposal of
        None \<Rightarrow> ([Print ''validating'', warn_obsolete_waypoints], [])
      | Some v \<Rightarrow> ([Print ''validating''], v))"

text \<open>
  \<^verbatim>\<open>Directions._handle_layer_status\<close> (lines 167-171), the observer of
  \<^verbatim>\<open>layer_status\<close>: the exception it raises, if any.
\<close>

definition handle_layer_status :: "string \<Rightarrow> error option" where
  "handle_layer_status new =
     (if new \<noteq> ''OK''
      then Some (DirectionsServiceException (''No directions returned: '' @ new))
      else None)"

section \<open>Assigning traits\<close>

text \<open>
  The framework's protocol for an assignment \<^verbatim>\<open>self.t = v\<close>: the trait type validates
  \<^verbatim>\<open>v\<close>, then the validator registered for \<^verbatim>\<open>t\<close> runs; a refused value raises and
  leaves the trait as it was; the value is stored, and the observers of \<^verbatim>\<open>t\<close> run
  when it differs from the old one. An assignment returns what it printed or warned,
  the exception that left it (if any) and the state after it.
\<close>

type_synonym outcome = "event list \<times> error option \<times> directions"

definition notify_bounds :: "event list \<Rightarrow> directions \<Rightarrow> outcome" where
  "notify_bounds ev s =
     (case calc_bounds s of Inl e \<Rightarrow> (ev, Some e, s) | Inr s' \<Rightarrow> (ev, None, s'))"

definition set_start :: "pyval \<Rightarrow> directions \<Rightarrow> outcome" where
  "set_start v s =
     (case Point_validate v of
        Inl e \<Rightarrow> ([], Some e, s)
      | Inr p \<Rightarrow> if p = start s then ([], None, s) else notify_bounds [] (s\<lparr>start := p\<rparr>))"

definition set_end :: "pyval \<Rightarrow> directions \<Rightarrow> outcome" where
  "set_end v s =
     (case Point_validate v of
        Inl e \<Rightarrow> ([], Some e, s)
      | Inr p \<Rightarrow>
          if p = end_point s then ([], None, s) else notify_bounds [] (s\<lparr>end_point := p\<rparr>))"

definition assign_waypoints ::
  "(pyval \<Rightarrow> error + point list option) \<Rightarrow> pyval \<Rightarrow> directions \<Rightarrow> outcome" where
  "assign_waypoints trait_type v s =
     (case trait_type v of
        Inl e \<Rightarrow> ([], Some e, s)
      | Inr proposal \<Rightarrow>
          (case valid_waypoints proposal of
             (ev, ws) \<Rightarrow>
               if ws = waypoints s then (ev, None, s)
               else notify_bounds ev (s\<lparr>waypoints := ws\<rparr>)))"

definition set_waypoints :: "pyval \<Rightarrow> directions \<Rightarrow> outcome" where
  "set_waypoints v s = assign_waypoints LocationArray_validate v s"

definition set_layer_status :: "string \<Rightarrow> directions \<Rightarrow> outcome" where
  "set_layer_status v s =
     (if v = layer_status s then ([], None, s)
      else ([], handle_layer_status v, s\<lparr>layer_status := v\<rparr>))"

text \<open>
  \<^verbatim>\<open>Directions._on_data_change\<close> (lines 146-153), the observer of \<^verbatim>\<open>data\<close>. Inside
  \<^verbatim>\<open>hold_trait_notifications\<close> the three assignments are validated by their trait
  types one after the other; a refusal restores the traits already assigned and
  raises. When the block is left, the validator of \<^verbatim>\<open>waypoints\<close> runs if that trait
  has changed, and the observer of the three traits runs if one of them has changed.
\<close>

definition hold_assign :: "pyval \<times> pyval \<times> pyval \<Rightarrow> event list \<Rightarrow> directions \<Rightarrow> outcome" where
  "hold_assign t ev0 s =
     (case t of (a, b, c) \<Rightarrow>
        (case Point_validate a of
           Inl e \<Rightarrow> (ev0, Some e, s)
         | Inr p \<Rightarrow>
        (case Point_validate b of
           Inl e \<Rightarrow> (ev0, Some e, s)
         | Inr q \<Rightarrow>
        (case LocationArray_validate c of
           Inl e \<Rightarrow> (ev0, Some e, s)
         | Inr w \<Rightarrow>
             (let changed = (w \<noteq> Some (waypoints s));
                  (ev, ws) = (if changed then valid_waypoints w else ([], waypoints s));
                  s' = s\<lparr>start := p, end_point := q, waypoints := ws\<rparr>
              in if p \<noteq> start s \<or> q \<noteq> end_point s \<or> changed
                 then notify_bounds (ev0 @ ev) s'
                 else (ev0 @ ev, None, s'))))))"

definition on_data_change :: "pyval list option \<Rightarrow> directions \<Rightarrow> outcome" where
  "on_data_change new s =
     (case new of
        None \<Rightarrow> ([], None, s)
      | Some xs \<Rightarrow>
          (case destructure_data (VList xs) of
             Inl e \<Rightarrow> ([warn_obsolete_data], Some e, s)
           | Inr t \<Rightarrow> hold_assign t [warn_obsolete_data] s))"

definition set_data :: "pyval \<Rightarrow> directions \<Rightarrow> outcome" where
  "set_data v s =
     (case data_validate v of
        Inl e \<Rightarrow> ([], Some e, s)
      | Inr new \<Rightarrow> if new = data s then ([], None, s) else on_data_change new (s\<lparr>data := new\<rparr>))"

text \<open>The assignments to the observed traits, and a session of them.\<close>

datatype op =
    Set_start pyval
  | Set_end pyval
  | Set_waypoints pyval
  | Set_data pyval
  | Set_layer_status string

fun step :: "op \<Rightarrow> directions \<Rightarrow> outcome" where
  "step (Set_start v) s = set_start v s"
| "step (Set_end v) s = set_end v s"
| "step (Set_waypoints v) s = set_waypoints v s"
| "step (Set_data v) s = set_data v s"
| "step (Set_layer_status v) s = set_layer_status v s"

definition state_of :: "outcome \<Rightarrow> directions" where
  "state_of r = snd (snd r)"

definition raised :: "outcome \<Rightarrow> error option" where
  "raised r = fst (snd r)"

fun run :: "op list \<Rightarrow> directions \<Rightarrow> directions" where
  "run [] s = s"
| "run (x # xs) s = run xs (state_of (step x s))"

section \<open>The constructor\<close>

text \<open>
  The keyword arguments of a call are a dictionary: an entry is \<open>None\<close> when the key is
  absent. The keys are the traits of lines 94-106 that a caller sets.
\<close>

record kwargs =
  kw_start :: "pyval option"
  kw_end :: "pyval option"
  kw_waypoints :: "pyval option"
  kw_data :: "pyval option"
  kw_avoid_ferries :: "pyval option"
  kw_avoid_highways :: "pyval option"
  kw_avoid_tolls :: "pyval option"
  kw_optimize_waypoints :: "pyval option"
  kw_travel_mode :: "pyval option"

definition get :: "pyval option \<Rightarrow> pyval" where
  "get entry = (case entry of None \<Rightarrow> VNone | Some v \<Rightarrow> v)"

definition or_default :: "'a \<Rightarrow> (pyval \<Rightarrow> error + 'a) \<Rightarrow> pyval option \<Rightarrow> error + 'a" where
  "or_default d validate entry = (case entry of None \<Rightarrow> Inr d | Some v \<Rightarrow> validate v)"

type_synonym construction = "event list \<times> (error + directions)"

text \<open>
  The framework's constructor assigns every entry of the dictionary to its trait, all
  inside one \<^verbatim>\<open>hold_trait_notifications\<close>: each value is validated by its trait type,
  the validator of \<^verbatim>\<open>waypoints\<close> runs when the block is left, and then the observer of
  \<^verbatim>\<open>start\<close>, \<^verbatim>\<open>end\<close> and \<^verbatim>\<open>waypoints\<close>. A trait with no entry keeps its default.
  \<^verbatim>\<open>__init__\<close> always passes the entries \<^verbatim>\<open>start\<close>, \<^verbatim>\<open>end\<close> and \<^verbatim>\<open>waypoints\<close>, and
  never a \<^verbatim>\<open>data\<close> that is not \<^verbatim>\<open>None\<close>.
\<close>

definition super_init :: "kwargs \<Rightarrow> construction" where
  "super_init kwargs =
     (case
        bind_err (Point_validate (get (kw_start kwargs))) (\<lambda>p.
        bind_err (Point_validate (get (kw_end kwargs))) (\<lambda>q.
        bind_err (LocationArray_validate (get (kw_waypoints kwargs))) (\<lambda>w.
        bind_err (or_default None data_validate (kw_data kwargs)) (\<lambda>d.
        bind_err (or_default False Bool_validate (kw_avoid_ferries kwargs)) (\<lambda>ferries.
        bind_err (or_default False Bool_validate (kw_avoid_highways kwargs)) (\<lambda>highways.
        bind_err (or_default False Bool_validate (kw_avoid_tolls kwargs)) (\<lambda>tolls.
        bind_err (or_default False Bool_validate (kw_optimize_waypoints kwargs)) (\<lambda>optimize.
        bind_err (or_default DEFAULT_TRAVEL_MODE travel_mode_validate (kw_travel_mode kwargs)) (\<lambda>mode.
        Inr (w, \<lparr>start = p, end_point = q, waypoints = [], data = d, data_bounds = [],
                 avoid_ferries = ferries, avoid_highways = highways, avoid_tolls = tolls,
                 optimize_waypoints = optimize, travel_mode = mode, layer_status = []\<rparr>))))))))))
      of
        Inl e \<Rightarrow> ([], Inl e)
      | Inr (w, s) \<Rightarrow>
          (case valid_waypoints w of (ev, ws) \<Rightarrow> (ev, calc_bounds (s\<lparr>waypoints := ws\<rparr>))))"

definition conflict_message :: string where
  \<open>conflict_message = ''Cannot set both data and one of "start", "end"or "waypoints".''\<close>

definition after :: "event list \<Rightarrow> construction \<Rightarrow> construction" where
  "after ev r = (ev @ fst r, snd r)"

text \<open>
  \<^verbatim>\<open>Directions.__init__\<close> (lines 110-129) on its three named parameters and the
  dictionary of the other keyword arguments.
\<close>

definition Directions_init :: "pyval \<Rightarrow> pyval \<Rightarrow> pyval \<Rightarrow> kwargs \<Rightarrow> construction" where
  "Directions_init start_arg end_arg waypoints_arg kwargs =
     (if get (kw_data kwargs) \<noteq> VNone then
        (let data_arg = get (kw_data kwargs);
             waypoints_kw = get (kw_waypoints kwargs)
         in if start_arg = VNone \<and> end_arg = VNone \<and> waypoints_kw = VNone then
              (case destructure_data data_arg of
                 Inl e \<Rightarrow> ([warn_obsolete_data], Inl e)
               | Inr (a, b, c) \<Rightarrow>
                   after [warn_obsolete_data]
                     (super_init (kwargs\<lparr>kw_start := Some a, kw_end := Some b,
                                          kw_waypoints := Some c, kw_data := Some VNone\<rparr>)))
            else ([warn_obsolete_data], Inl (ValueError conflict_message)))
      else
        (let (ev, waypoints_new) =
               (if waypoints_arg = VNone then ([warn_obsolete_waypoints], VList [])
                else ([], waypoints_arg))
         in after ev
              (super_init (kwargs\<lparr>kw_start := Some start_arg, kw_end := Some end_arg,
                                   kw_waypoints := Some waypoints_new\<rparr>))))"

text \<open>
  A call \<^verbatim>\<open>Directions(start, end, waypoints, **more)\<close>: Python binds the arguments named
  \<^verbatim>\<open>start\<close>, \<^verbatim>\<open>end\<close> and \<^verbatim>\<open>waypoints\<close> to the parameters (\<^verbatim>\<open>None\<close> when omitted), whether
  they are given by position or by keyword, so the dictionary \<^verbatim>\<open>kwargs\<close> that
  \<^verbatim>\<open>__init__\<close> receives never has these three keys.
\<close>

definition Directions_call :: "pyval \<Rightarrow> pyval \<Rightarrow> pyval \<Rightarrow> kwargs \<Rightarrow> construction" where
  "Directions_call start_arg end_arg waypoints_arg given =
     Directions_init start_arg end_arg waypoints_arg
       (given\<lparr>kw_start := None, kw_end := None, kw_waypoints := None\<rparr>)"

definition no_kwargs :: kwargs where
  "no_kwargs = \<lparr>kw_start = None, kw_end = None, kw_waypoints = None, kw_data = None,
                 kw_avoid_ferries = None, kw_avoid_highways = None, kw_avoid_tolls = None,
                 kw_optimize_waypoints = None, kw_travel_mode = None\<rparr>"

text \<open>\<^verbatim>\<open>directions_layer\<close> (lines 174-250), the factory function.\<close>

definition directions_layer ::
  "pyval \<Rightarrow> pyval \<Rightarrow> pyval \<Rightarrow> pyval \<Rightarrow> pyval \<Rightarrow> pyval \<Rightarrow> pyval \<Rightarrow> pyval \<Rightarrow> construction" where
  "directions_layer start_arg end_arg waypoints_arg avoid_ferries_arg travel_mode_arg
       avoid_highways_arg avoid_tolls_arg optimize_waypoints_arg =
     Directions_call start_arg end_arg waypoints_arg
       (no_kwargs\<lparr>kw_travel_mode := Some travel_mode_arg,
                   kw_avoid_ferries := Some avoid_ferries_arg,
                   kw_avoid_highways := Some avoid_highways_arg,
                   kw_avoid_tolls := Some avoid_tolls_arg,
                   kw_optimize_waypoints := Some optimize_waypoints_arg\<rparr>)"

section \<open>Reference definitions\<close>

text \<open>
  The bounding box as the spec words it: one traversal of the points that carries the
  four extrema, started at the first point.
\<close>

fun single_pass :: "real \<times> real \<times> real \<times> real \<Rightarrow> point list \<Rightarrow> real \<times> real \<times> real \<times> real" where
  "single_pass acc [] = acc"
| "single_pass (lo_lat, lo_lon, hi_lat, hi_lon) (p # ps) =
     single_pass (min lo_lat (fst p), min lo_lon (snd p), max hi_lat (fst p), max hi_lon (snd p)) ps"

definition bounds_single_pass :: "point list \<Rightarrow> point list option" where
  "bounds_single_pass ps =
     (case ps of
        [] \<Rightarrow> None
      | p # rest \<Rightarrow>
          (case single_pass (fst p, snd p, fst p, snd p) rest of
             (lo_lat, lo_lon, hi_lat, hi_lon) \<Rightarrow> Some [(lo_lat, lo_lon), (hi_lat, hi_lon)]))"

text \<open>The properties the claims state of a widget state.\<close>

definition valid_route :: "directions \<Rightarrow> bool" where
  "valid_route s = list_all valid_point (all_data s)"

definition ordered_box :: "point list \<Rightarrow> bool" where
  "ordered_box b =
     (case b of
        [lo, hi] \<Rightarrow> fst lo \<le> fst hi \<and> snd lo \<le> snd hi
      | _ \<Rightarrow> False)"

definition bounding_box :: "point list \<Rightarrow> point list" where
  "bounding_box ps =
     [(Min (fst ` set ps), Min (snd ` set ps)), (Max (fst ` set ps), Max (snd ` set ps))]"

definition minimal_rectangle :: "point list \<Rightarrow> point list \<Rightarrow> bool" where
  "minimal_rectangle b ps =
     (case b of
        [lo, hi] \<Rightarrow>
          (\<forall>p \<in> set ps. fst lo \<le> fst p \<and> fst p \<le> fst hi \<and> snd lo \<le> snd p \<and> snd p \<le> snd hi) \<and>
          (\<exists>p \<in> set ps. fst p = fst lo) \<and> (\<exists>p \<in> set ps. snd p = snd lo) \<and>
          (\<exists>p \<in> set ps. fst p = fst hi) \<and> (\<exists>p \<in> set ps. snd p = snd hi)
      | _ \<Rightarrow> False)"

text \<open>
  The canonical form of a legacy list of points: \<^verbatim>\<open>start\<close> is \<^verbatim>\<open>data[0]\<close>, \<^verbatim>\<open>end\<close> is
  \<^verbatim>\<open>data[-1]\<close> and \<^verbatim>\<open>waypoints\<close> is \<^verbatim>\<open>data[1:-1]\<close>.
\<close>

definition normalized :: "point list \<Rightarrow> directions \<Rightarrow> bool" where
  "normalized ps s =
     (py_getitem ps 0 = Inr (start s) \<and> py_getitem ps (- 1) = Inr (end_point s) \<and>
      waypoints s = py_slice ps 1 (- 1))"

text \<open>The layer of the docstring's example (lines 45-49), for concrete instances.\<close>

definition docstring_points :: "point list" where
  "docstring_points = [(46.2, 6.1), (52.37403, 4.88969), (47.4, 8.5)]"

definition example_layer :: directions where
  "example_layer =
     \<lparr>start = (46.2, 6.1), end_point = (47.4, 8.5), waypoints = [(52.37403, 4.88969)],
      data = None, data_bounds = [(46.2, 4.88969), (52.37403, 8.5)],
      avoid_ferries = False, avoid_highways = False, avoid_tolls = False,
      optimize_waypoints = False, travel_mode = ''DRIVING'', layer_status = []\<rparr>"

section \<open>Sequences and the bounding box\<close>

lemma foldl_min_fold:
  "foldl (\<lambda>m y. if y < m then y else m) x xs = fold min xs (x::'a::linorder)"
  by (induction xs arbitrary: x) (auto simp: min_def)

lemma foldl_max_fold:
  "foldl (\<lambda>m y. if m < y then y else m) x xs = fold max xs (x::'a::linorder)"
  by (induction xs arbitrary: x) (auto simp: max_def)

lemma foldl_min_Min:
  "foldl (\<lambda>m y. if y < m then y else m) x xs = Min (set (x # xs))"
  by (simp only: foldl_min_fold Min.set_eq_fold)

lemma foldl_max_Max:
  "foldl (\<lambda>m y. if m < y then y else m) x xs = Max (set (x # xs))"
  by (simp only: foldl_max_fold Max.set_eq_fold)

lemma py_min_Min: "xs \<noteq> [] \<Longrightarrow> py_min xs = Inr (Min (set xs))"
  by (cases xs) (simp_all add: py_min_def foldl_min_Min del: set_simps)

lemma py_max_Max: "xs \<noteq> [] \<Longrightarrow> py_max xs = Inr (Max (set xs))"
  by (cases xs) (simp_all add: py_max_def foldl_max_Max del: set_simps)

lemma all_data_nonempty: "all_data s \<noteq> []"
  by (simp add: all_data_def)

lemma calc_bounds_box: "calc_bounds s = Inr (s\<lparr>data_bounds := bounding_box (all_data s)\<rparr>)"
  by (simp add: calc_bounds_def bind_err_def py_min_Min py_max_Max all_data_nonempty
      bounding_box_def)

lemma notify_bounds_box:
  "notify_bounds ev s = (ev, None, s\<lparr>data_bounds := bounding_box (all_data s)\<rparr>)"
  by (simp add: notify_bounds_def calc_bounds_box)

lemma single_pass_fold:
  "single_pass (a, b, c, d) ps =
     (fold min (map fst ps) a, fold min (map snd ps) b,
      fold max (map fst ps) c, fold max (map snd ps) d)"
  by (induction ps arbitrary: a b c d) (simp_all add: min.commute max.commute)

lemma Min_image_fold: "Min (f ` set (p # ps)) = fold min (map f ps) (f p)"
proof -
  have "f ` set (p # ps) = set (f p # map f ps)" by simp
  then show ?thesis by (simp only: Min.set_eq_fold)
qed

lemma Max_image_fold: "Max (f ` set (p # ps)) = fold max (map f ps) (f p)"
proof -
  have "f ` set (p # ps) = set (f p # map f ps)" by simp
  then show ?thesis by (simp only: Max.set_eq_fold)
qed

lemma bounds_single_pass_box:
  assumes "ps \<noteq> []"
  shows "bounds_single_pass ps = Some (bounding_box ps)"
proof -
  from assms obtain x y rest where ps: "ps = (x, y) # rest"
    by (cases ps) auto
  show ?thesis
    by (simp add: ps bounds_single_pass_def single_pass_fold bounding_box_def
        Min_image_fold Max_image_fold del: set_simps)
qed

lemma Point_validate_pt:
  "Point_validate (pt p) = (if valid_point p then Inr p else Inl TraitError)"
  by (simp add: Point_validate_def pt_def)

lemma Point_validate_Inr: "Point_validate v = Inr p \<Longrightarrow> valid_point p"
  by (auto simp: Point_validate_def split: pyval.splits list.splits if_splits)

lemma validate_each_pts:
  "validate_each (map pt ps) = (if list_all valid_point ps then Inr ps else Inl TraitError)"
  by (induction ps) (simp_all add: bind_err_def Point_validate_pt)

lemma validate_each_Inr: "validate_each vs = Inr ps \<Longrightarrow> list_all valid_point ps"
  by (induction vs arbitrary: ps)
    (auto simp: bind_err_def split: sum.splits dest: Point_validate_Inr)

lemma LocationArray_validate_pts:
  "LocationArray_validate (pts ps) =
     (if list_all valid_point ps then Inr (Some ps) else Inl TraitError)"
  by (simp add: LocationArray_validate_def pts_def validate_each_pts bind_err_def)

lemma LocationArray_validate_Inr:
  "LocationArray_validate v = Inr (Some ps) \<Longrightarrow> list_all valid_point ps"
  by (auto simp: LocationArray_validate_def bind_err_def
      split: pyval.splits sum.splits dest: validate_each_Inr)

lemma py_slice_inner: "py_slice xs 1 (- 1) = butlast (tl xs)"
  by (cases xs) (simp_all add: py_slice_def clip_def butlast_conv_take drop_take)

lemma destructure_seq_nonempty:
  "xs \<noteq> [] \<Longrightarrow> destructure_seq xs = Inr (hd xs, last xs, butlast (tl xs))"
  by (cases xs)
    (auto simp: destructure_seq_def bind_err_def py_getitem_def py_slice_inner Let_def
      last_conv_nth nat_diff_distrib)

lemma destructure_seq_empty: "destructure_seq [] = Inl IndexError"
  by (simp add: destructure_seq_def bind_err_def py_getitem_def)

lemma attained_in: "m \<in> f ` A \<Longrightarrow> \<exists>p \<in> A. f p = m"
  by auto

lemma bounding_box_minimal:
  assumes ne: "ps \<noteq> []"
  shows "minimal_rectangle (bounding_box ps) ps"
proof -
  have attained:
    "\<exists>p \<in> set ps. fst p = Min (fst ` set ps)" "\<exists>p \<in> set ps. snd p = Min (snd ` set ps)"
    "\<exists>p \<in> set ps. fst p = Max (fst ` set ps)" "\<exists>p \<in> set ps. snd p = Max (snd ` set ps)"
    by (rule attained_in, simp add: ne)+
  have inside: "\<forall>p \<in> set ps. Min (fst ` set ps) \<le> fst p \<and> fst p \<le> Max (fst ` set ps) \<and>
      Min (snd ` set ps) \<le> snd p \<and> snd p \<le> Max (snd ` set ps)"
    by simp
  show ?thesis
    using attained inside by (simp add: minimal_rectangle_def bounding_box_def)
qed

lemma bounding_box_ordered: "ps \<noteq> [] \<Longrightarrow> ordered_box (bounding_box ps)"
  by (simp add: ordered_box_def bounding_box_def)

lemma hold_assign_bounds:
  "all_data (state_of (hold_assign t ev s)) = all_data s \<and>
     data_bounds (state_of (hold_assign t ev s)) = data_bounds s \<or>
   data_bounds (state_of (hold_assign t ev s)) =
     bounding_box (all_data (state_of (hold_assign t ev s)))"
  by (auto simp: hold_assign_def state_of_def notify_bounds_box all_data_def Let_def
      split: prod.splits sum.splits)

lemma on_data_change_bounds:
  "all_data (state_of (on_data_change new s)) = all_data s \<and>
     data_bounds (state_of (on_data_change new s)) = data_bounds s \<or>
   data_bounds (state_of (on_data_change new s)) =
     bounding_box (all_data (state_of (on_data_change new s)))"
proof (cases new)
  case None
  then show ?thesis by (simp add: on_data_change_def state_of_def)
next
  case (Some xs)
  show ?thesis
  proof (cases "destructure_data (VList xs)")
    case (Inl e)
    with Some show ?thesis by (simp add: on_data_change_def state_of_def)
  next
    case (Inr t)
    with Some show ?thesis
      using hold_assign_bounds [of t "[warn_obsolete_data]" s]
      by (simp add: on_data_change_def)
  qed
qed

lemma set_data_bounds:
  "all_data (state_of (set_data v s)) = all_data s \<and>
     data_bounds (state_of (set_data v s)) = data_bounds s \<or>
   data_bounds (state_of (set_data v s)) = bounding_box (all_data (state_of (set_data v s)))"
proof (cases "data_validate v")
  case (Inl e)
  then show ?thesis by (simp add: set_data_def state_of_def)
next
  case (Inr new)
  show ?thesis
  proof (cases "new = data s")
    case True
    with Inr show ?thesis by (simp add: set_data_def state_of_def)
  next
    case False
    with Inr show ?thesis
      using on_data_change_bounds [of new "s\<lparr>data := new\<rparr>"]
      by (simp add: set_data_def all_data_def)
  qed
qed

lemma step_bounds:
  "all_data (state_of (step x s)) = all_data s \<and>
     data_bounds (state_of (step x s)) = data_bounds s \<or>
   data_bounds (state_of (step x s)) = bounding_box (all_data (state_of (step x s)))"
proof (cases x)
  case (Set_start v)
  then show ?thesis
    by (auto simp: set_start_def state_of_def notify_bounds_box all_data_def split: sum.splits)
next
  case (Set_end v)
  then show ?thesis
    by (auto simp: set_end_def state_of_def notify_bounds_box all_data_def split: sum.splits)
next
  case (Set_waypoints v)
  then show ?thesis
    by (auto simp: set_waypoints_def assign_waypoints_def state_of_def notify_bounds_box all_data_def
        split: sum.splits prod.splits)
next
  case (Set_data v)
  then show ?thesis using set_data_bounds [of v s] by simp
next
  case (Set_layer_status v)
  then show ?thesis
    by (auto simp: set_layer_status_def state_of_def all_data_def)
qed

section \<open>The constructor and the assignments\<close>

lemma bind_err_Inr: "bind_err m f = Inr y \<longleftrightarrow> (\<exists>x. m = Inr x \<and> f x = Inr y)"
  by (cases m) (simp_all add: bind_err_def)

lemma snd_after: "snd (after ev r) = snd r"
  by (simp add: after_def)

lemma super_init_Inr:
  assumes "snd (super_init kw) = Inr s"
  shows "\<exists>p q w. Point_validate (get (kw_start kw)) = Inr p \<and>
           Point_validate (get (kw_end kw)) = Inr q \<and>
           LocationArray_validate (get (kw_waypoints kw)) = Inr w \<and>
           start s = p \<and> end_point s = q \<and> waypoints s = snd (valid_waypoints w) \<and>
           data_bounds s = bounding_box (all_data s)"
  using assms
  by (auto simp: super_init_def bind_err_Inr calc_bounds_box all_data_def
      split: sum.splits prod.splits)

lemma Directions_init_super:
  assumes "snd (Directions_init a b c kw) = Inr s"
  shows "\<exists>kw'. snd (super_init kw') = Inr s"
  using assms
  by (auto simp: Directions_init_def Let_def snd_after split: if_splits sum.splits prod.splits)

lemma valid_waypoints_valid:
  "LocationArray_validate v = Inr w \<Longrightarrow> list_all valid_point (snd (valid_waypoints w))"
  by (cases w) (simp_all add: valid_waypoints_def LocationArray_validate_Inr)

lemma Directions_init_established:
  assumes "snd (Directions_init a b c kw) = Inr s"
  shows "valid_route s \<and> data_bounds s = bounding_box (all_data s)"
proof -
  from assms obtain kw' where "snd (super_init kw') = Inr s"
    using Directions_init_super by blast
  from super_init_Inr [OF this] show ?thesis
    by (auto simp: valid_route_def all_data_def dest: Point_validate_Inr valid_waypoints_valid)
qed

lemma hold_assign_valid:
  "valid_route s \<Longrightarrow> valid_route (state_of (hold_assign t ev s))"
  by (auto simp: hold_assign_def state_of_def notify_bounds_box valid_route_def all_data_def
      Let_def valid_waypoints_def
      split: prod.splits sum.splits option.splits if_splits
      dest: Point_validate_Inr LocationArray_validate_Inr)

lemma hold_assign_frame:
  "data (state_of (hold_assign t ev s)) = data s \<and>
   avoid_ferries (state_of (hold_assign t ev s)) = avoid_ferries s \<and>
   avoid_highways (state_of (hold_assign t ev s)) = avoid_highways s \<and>
   avoid_tolls (state_of (hold_assign t ev s)) = avoid_tolls s \<and>
   optimize_waypoints (state_of (hold_assign t ev s)) = optimize_waypoints s \<and>
   travel_mode (state_of (hold_assign t ev s)) = travel_mode s \<and>
   layer_status (state_of (hold_assign t ev s)) = layer_status s"
  by (auto simp: hold_assign_def state_of_def notify_bounds_box Let_def
      split: prod.splits sum.splits)

lemma on_data_change_state:
  "state_of (on_data_change new s) = s \<or>
   (\<exists>t ev. state_of (on_data_change new s) = state_of (hold_assign t ev s))"
  by (auto simp: on_data_change_def state_of_def split: option.splits sum.splits)

lemma set_data_state:
  "state_of (set_data v s) = s \<or>
   (\<exists>new. state_of (set_data v s) = s\<lparr>data := new\<rparr>) \<or>
   (\<exists>new t ev. state_of (set_data v s) = state_of (hold_assign t ev (s\<lparr>data := new\<rparr>)))"
proof (cases "data_validate v")
  case (Inl e)
  then show ?thesis by (simp add: set_data_def state_of_def)
next
  case (Inr new)
  show ?thesis
  proof (cases "new = data s")
    case True
    with Inr show ?thesis by (simp add: set_data_def state_of_def)
  next
    case False
    with Inr have "state_of (set_data v s) = state_of (on_data_change new (s\<lparr>data := new\<rparr>))"
      by (simp add: set_data_def)
    then show ?thesis
      using on_data_change_state [of new "s\<lparr>data := new\<rparr>"] by metis
  qed
qed

lemma set_data_valid: "valid_route s \<Longrightarrow> valid_route (state_of (set_data v s))"
proof -
  assume v: "valid_route s"
  then have "valid_route (s\<lparr>data := new\<rparr>)" for new
    by (simp add: valid_route_def all_data_def)
  then show ?thesis
    using v set_data_state [of v s] hold_assign_valid by metis
qed

lemma step_valid: "valid_route s \<Longrightarrow> valid_route (state_of (step x s))"
proof (cases x)
  case (Set_start v)
  assume "valid_route s"
  with Set_start show ?thesis
    by (auto simp: set_start_def state_of_def notify_bounds_box valid_route_def all_data_def
        split: sum.splits dest: Point_validate_Inr)
next
  case (Set_end v)
  assume "valid_route s"
  with Set_end show ?thesis
    by (auto simp: set_end_def state_of_def notify_bounds_box valid_route_def all_data_def
        split: sum.splits dest: Point_validate_Inr)
next
  case (Set_waypoints v)
  assume "valid_route s"
  with Set_waypoints show ?thesis
    by (auto simp: set_waypoints_def assign_waypoints_def state_of_def notify_bounds_box valid_route_def all_data_def
        valid_waypoints_def
        split: sum.splits prod.splits option.splits dest: LocationArray_validate_Inr)
next
  case (Set_data v)
  assume "valid_route s"
  with Set_data show ?thesis by (simp add: set_data_valid)
next
  case (Set_layer_status v)
  assume "valid_route s"
  with Set_layer_status show ?thesis
    by (simp add: set_layer_status_def state_of_def valid_route_def all_data_def)
qed

lemma set_data_frame:
  "avoid_ferries (state_of (set_data v s)) = avoid_ferries s \<and>
   avoid_highways (state_of (set_data v s)) = avoid_highways s \<and>
   avoid_tolls (state_of (set_data v s)) = avoid_tolls s \<and>
   optimize_waypoints (state_of (set_data v s)) = optimize_waypoints s \<and>
   travel_mode (state_of (set_data v s)) = travel_mode s \<and>
   layer_status (state_of (set_data v s)) = layer_status s"
  using set_data_state [of v s] hold_assign_frame
  by (elim disjE exE) simp_all

lemma destructure_data_pts:
  "ps \<noteq> [] \<Longrightarrow>
     destructure_data (pts ps) = Inr (pt (hd ps), pt (last ps), pts (butlast (tl ps)))"
  by (simp add: pts_def destructure_seq_nonempty bind_err_def hd_map last_map map_butlast map_tl)

lemma valid_parts:
  assumes "list_all valid_point ps" and "ps \<noteq> []"
  shows "valid_point (hd ps)" and "valid_point (last ps)"
    and "list_all valid_point (butlast (tl ps))"
proof -
  have "set (butlast (tl ps)) \<subseteq> set ps"
    by (cases ps) (auto dest: in_set_butlastD)
  with assms show "valid_point (hd ps)" "valid_point (last ps)"
    "list_all valid_point (butlast (tl ps))"
    by (auto simp: list_all_iff)
qed

lemma roundtrip: "2 \<le> length xs \<Longrightarrow> [hd xs] @ butlast (tl xs) @ [last xs] = xs"
  by (cases xs) (auto simp: Suc_le_eq)

lemma construct_from_data:
  assumes "ps \<noteq> []" and "list_all valid_point ps"
  shows "Directions_call VNone VNone w (no_kwargs\<lparr>kw_data := Some (pts ps)\<rparr>) =
     ([warn_obsolete_data, Print ''validating''],
      Inr \<lparr>start = hd ps, end_point = last ps, waypoints = butlast (tl ps), data = None,
           data_bounds = bounding_box ([hd ps] @ butlast (tl ps) @ [last ps]),
           avoid_ferries = False, avoid_highways = False, avoid_tolls = False,
           optimize_waypoints = False, travel_mode = DEFAULT_TRAVEL_MODE, layer_status = []\<rparr>)"
proof -
  have data: "get (Some (pts ps)) = pts ps" "pts ps \<noteq> VNone" "get None = VNone"
    "get (Some VNone) = VNone"
    by (simp_all add: get_def pts_def)
  show ?thesis
    using valid_parts [OF assms(2) assms(1)]
    by (simp add: Directions_call_def Directions_init_def no_kwargs_def data Let_def
        destructure_data_pts assms(1) super_init_def after_def bind_err_def
        Point_validate_pt LocationArray_validate_pts or_default_def data_validate_def
        valid_waypoints_def calc_bounds_box all_data_def get_def)
qed

lemma set_data_from_points:
  assumes "2 \<le> length ps" and "list_all valid_point ps" and "data s \<noteq> Some (map pt ps)"
  shows "raised (set_data (pts ps) s) = None \<and>
     start (state_of (set_data (pts ps) s)) = hd ps \<and>
     end_point (state_of (set_data (pts ps) s)) = last ps \<and>
     waypoints (state_of (set_data (pts ps) s)) = butlast (tl ps) \<and>
     data (state_of (set_data (pts ps) s)) = Some (map pt ps)"
proof -
  from assms(1) have ne: "ps \<noteq> []" by auto
  have validated: "data_validate (pts ps) = Inr (Some (map pt ps))"
    using assms(1) by (simp add: data_validate_def pts_def)
  have split: "destructure_data (VList (map pt ps)) =
      Inr (pt (hd ps), pt (last ps), pts (butlast (tl ps)))"
    using destructure_data_pts [OF ne] by (simp only: pts_def)
  show ?thesis
    using valid_parts [OF assms(2) ne] assms(3)
    by (auto simp: set_data_def validated on_data_change_def split hold_assign_def
        Point_validate_pt LocationArray_validate_pts Let_def notify_bounds_box
        valid_waypoints_def raised_def state_of_def simp del: destructure_data.simps)
qed

lemma run_valid: "valid_route s \<Longrightarrow> valid_route (run ops s)"
  by (induction ops arbitrary: s) (simp_all add: step_valid)

lemma step_boxed:
  "data_bounds s = bounding_box (all_data s) \<Longrightarrow>
     data_bounds (state_of (step x s)) = bounding_box (all_data (state_of (step x s)))"
  using step_bounds [of x s] by auto

lemma run_boxed:
  "data_bounds s = bounding_box (all_data s) \<Longrightarrow>
     data_bounds (run ops s) = bounding_box (all_data (run ops s))"
  by (induction ops arbitrary: s) (simp_all add: step_boxed)

lemmas eval_step =
  set_start_def set_end_def set_waypoints_def assign_waypoints_def set_layer_status_def set_data_def
  on_data_change_def hold_assign_def notify_bounds_def calc_bounds_def all_data_def
  bind_err_def py_min_def py_max_def state_of_def raised_def Point_validate_def
  LocationArray_validate_def data_validate_def valid_waypoints_def valid_point_def
  handle_layer_status_def pt_def pts_def example_layer_def destructure_seq_def
  py_getitem_def py_slice_def clip_def Let_def

lemma py_getitem_ends:
  "xs \<noteq> [] \<Longrightarrow> py_getitem xs 0 = Inr (hd xs) \<and> py_getitem xs (- 1) = Inr (last xs)"
  by (cases xs) (auto simp: py_getitem_def Let_def last_conv_nth nat_diff_distrib hd_conv_nth)

lemma normalized_iff:
  "ps \<noteq> [] \<Longrightarrow>
     normalized ps s = (start s = hd ps \<and> end_point s = last ps \<and> waypoints s = butlast (tl ps))"
  by (auto simp: normalized_def py_getitem_ends py_slice_inner)

lemma docstring_points_ok:
  "2 \<le> length docstring_points" "list_all valid_point docstring_points" "docstring_points \<noteq> []"
  by (simp_all add: docstring_points_def valid_point_def)

lemma docstring_construction:
  "Directions_call VNone VNone w (no_kwargs\<lparr>kw_data := Some (pts docstring_points)\<rparr>) =
     ([warn_obsolete_data, Print ''validating''], Inr example_layer)"
proof -
  have "bounding_box docstring_points = [(46.2, 4.88969), (52.37403, 8.5)]"
    by (simp add: bounding_box_def docstring_points_def)
  then show ?thesis
    using construct_from_data [OF docstring_points_ok(3) docstring_points_ok(2), of w]
    by (simp add: docstring_points_def example_layer_def DEFAULT_TRAVEL_MODE_def)
qed

lemma on_data_change_frame:
  "avoid_ferries (state_of (on_data_change new s)) = avoid_ferries s \<and>
   avoid_highways (state_of (on_data_change new s)) = avoid_highways s \<and>
   avoid_tolls (state_of (on_data_change new s)) = avoid_tolls s \<and>
   optimize_waypoints (state_of (on_data_change new s)) = optimize_waypoints s \<and>
   travel_mode (state_of (on_data_change new s)) = travel_mode s \<and>
   layer_status (state_of (on_data_change new s)) = layer_status s"
  using on_data_change_state [of new s] hold_assign_frame
  by (elim disjE exE) simp_all

lemma get_entry: "get None = VNone" "get (Some v) = v"
  by (simp_all add: get_def)

lemma data_branch:
  assumes "get (kw_data given) \<noteq> VNone"
  shows "Directions_call a b w given =
     (if a = VNone \<and> b = VNone then
        (case destructure_data (get (kw_data given)) of
           Inl e \<Rightarrow> ([warn_obsolete_data], Inl e)
         | Inr (x, y, z) \<Rightarrow>
             after [warn_obsolete_data]
               (super_init (given\<lparr>kw_start := Some x, kw_end := Some y,
                                   kw_waypoints := Some z, kw_data := Some VNone\<rparr>)))
      else ([warn_obsolete_data], Inl (ValueError conflict_message)))"
  using assms
  by (simp add: Directions_call_def Directions_init_def Let_def get_entry
      split: sum.splits prod.splits)

lemma other_branch:
  assumes "get (kw_data given) = VNone"
  shows "Directions_call a b w given =
     after (if w = VNone then [warn_obsolete_waypoints] else [])
       (super_init (given\<lparr>kw_start := Some a, kw_end := Some b,
                           kw_waypoints := Some (if w = VNone then VList [] else w)\<rparr>))"
  using assms by (simp add: Directions_call_def Directions_init_def Let_def get_entry)

lemma super_init_data_entry:
  assumes "snd (super_init kw) = Inr s"
  shows "or_default None data_validate (kw_data kw) = Inr (data s)"
  using assms
  by (auto simp: super_init_def bind_err_Inr calc_bounds_box split: sum.splits prod.splits)

lemma super_init_data:
  assumes "snd (super_init kw) = Inr s" and "get (kw_data kw) = VNone"
  shows "data s = None"
proof -
  from assms(2) have "or_default None data_validate (kw_data kw) = Inr None"
    by (cases "kw_data kw") (simp_all add: or_default_def get_def data_validate_def)
  with super_init_data_entry [OF assms(1)] show ?thesis by simp
qed

lemma constructed_data:
  assumes "snd (Directions_call a b c given) = Inr s0"
  shows "data s0 = None"
proof (cases "get (kw_data given) = VNone")
  case True
  with assms show ?thesis
    by (auto simp: other_branch snd_after get_entry intro: super_init_data)
next
  case False
  with assms show ?thesis
    by (auto simp: data_branch snd_after get_entry split: if_splits sum.splits
        intro: super_init_data)
qed

lemma assign_none:
  assumes "trait_type VNone = Inr None" and "trait_type (VList []) = Inr (Some [])"
  shows "assign_waypoints trait_type VNone s =
      (if waypoints s = [] then ([Print ''validating'', warn_obsolete_waypoints], None, s)
       else ([Print ''validating'', warn_obsolete_waypoints], None,
             s\<lparr>waypoints := [], data_bounds := bounding_box [start s, end_point s]\<rparr>))"
    and "assign_waypoints trait_type (VList []) s =
      (if waypoints s = [] then ([Print ''validating''], None, s)
       else ([Print ''validating''], None,
             s\<lparr>waypoints := [], data_bounds := bounding_box [start s, end_point s]\<rparr>))"
  using assms
  by (auto simp: assign_waypoints_def valid_waypoints_def notify_bounds_box all_data_def)

lemma LocationArray_validate_none:
  "LocationArray_validate VNone = Inr None" "LocationArray_validate (VList []) = Inr (Some [])"
  by (simp_all add: LocationArray_validate_def bind_err_def)

section \<open>The claims\<close>

text \<open>
  C1. After any change to \<^verbatim>\<open>start\<close>, \<^verbatim>\<open>end\<close> or \<^verbatim>\<open>waypoints\<close>, \<^verbatim>\<open>data_bounds\<close> is the
  minimal rectangle of the route \<^verbatim>\<open>[start] + waypoints + [end]\<close>: its first element is
  (minimum latitude, minimum longitude), its second (maximum latitude, maximum
  longitude); every point of the route lies inside, and each of the four extrema is the
  coordinate of a point of the route. The observer itself never raises and computes
  this rectangle; an assignment that changes the route runs it; so does the
  constructor, and the property holds after any session of assignments.
\<close>

theorem data_bounds_minimal_rectangle:
  "(\<exists>s'. calc_bounds s = Inr s' \<and> all_data s' = all_data s \<and>
          data_bounds s' = bounding_box (all_data s) \<and>
          minimal_rectangle (data_bounds s') (all_data s)) \<and>
   (all_data (state_of (step x s)) \<noteq> all_data s \<longrightarrow>
      data_bounds (state_of (step x s)) = bounding_box (all_data (state_of (step x s))) \<and>
      minimal_rectangle (data_bounds (state_of (step x s))) (all_data (state_of (step x s)))) \<and>
   (\<forall>s0. snd (Directions_call a b c given) = Inr s0 \<longrightarrow>
      data_bounds (run ops s0) = bounding_box (all_data (run ops s0)) \<and>
      minimal_rectangle (data_bounds (run ops s0)) (all_data (run ops s0)))"
proof (intro conjI allI impI)
  show "\<exists>s'. calc_bounds s = Inr s' \<and> all_data s' = all_data s \<and>
          data_bounds s' = bounding_box (all_data s) \<and>
          minimal_rectangle (data_bounds s') (all_data s)"
    by (simp add: calc_bounds_box bounding_box_minimal all_data_nonempty)
      (simp add: all_data_def)
next
  assume "all_data (state_of (step x s)) \<noteq> all_data s"
  then show box: "data_bounds (state_of (step x s)) =
      bounding_box (all_data (state_of (step x s)))"
    using step_bounds [of x s] by auto
  then show "minimal_rectangle (data_bounds (state_of (step x s)))
      (all_data (state_of (step x s)))"
    by (simp add: bounding_box_minimal all_data_nonempty)
next
  fix s0
  assume "snd (Directions_call a b c given) = Inr s0"
  then have "data_bounds s0 = bounding_box (all_data s0)"
    by (simp add: Directions_call_def Directions_init_established)
  then show box: "data_bounds (run ops s0) = bounding_box (all_data (run ops s0))"
    by (rule run_boxed)
  then show "minimal_rectangle (data_bounds (run ops s0)) (all_data (run ops s0))"
    by (simp add: bounding_box_minimal all_data_nonempty)
qed

text \<open>Moving the start of the docstring's layer to (40, 7).\<close>

theorem data_bounds_minimal_rectangle_witness:
  "all_data (state_of (step (Set_start (pt (40, 7))) example_layer)) \<noteq> all_data example_layer \<and>
   data_bounds (state_of (step (Set_start (pt (40, 7))) example_layer)) =
     [(40, 4.88969), (52.37403, 8.5)] \<and>
   minimal_rectangle [(40, 4.88969), (52.37403, 8.5)]
     [(40, 7), (52.37403, 4.88969), (47.4, 8.5)]"
proof -
  have after: "state_of (step (Set_start (pt (40, 7))) example_layer) =
      example_layer\<lparr>start := (40, 7), data_bounds := [(40, 4.88969), (52.37403, 8.5)]\<rparr>"
    by (simp add: eval_step)
  have changed: "all_data (state_of (step (Set_start (pt (40, 7))) example_layer)) \<noteq>
      all_data example_layer"
    unfolding after by (simp add: all_data_def example_layer_def)
  with data_bounds_minimal_rectangle [of example_layer "Set_start (pt (40, 7))"]
  have "minimal_rectangle (data_bounds (state_of (step (Set_start (pt (40, 7))) example_layer)))
      (all_data (state_of (step (Set_start (pt (40, 7))) example_layer)))"
    by blast
  then show ?thesis
    using changed unfolding after by (simp add: all_data_def example_layer_def)
qed

text \<open>
  C7. The bounding box that \<^verbatim>\<open>_calc_bounds\<close> computes with four calls of \<^verbatim>\<open>min\<close> and
  \<^verbatim>\<open>max\<close> is the result of the reference traversal \<open>bounds_single_pass\<close>, which carries
  the four extrema once through the points \<^verbatim>\<open>[start] + waypoints + [end]\<close>, whatever
  the number of points.
\<close>

theorem calc_bounds_single_pass:
  "\<exists>s'. calc_bounds s = Inr s' \<and> bounds_single_pass (all_data s) = Some (data_bounds s')"
  by (simp add: calc_bounds_box bounds_single_pass_box all_data_nonempty)

text \<open>The three points of the docstring's layer.\<close>

theorem calc_bounds_single_pass_witness:
  "calc_bounds example_layer = Inr example_layer \<and>
   bounds_single_pass [(46.2, 6.1), (52.37403, 4.88969), (47.4, 8.5)] =
     Some [(46.2, 4.88969), (52.37403, 8.5)]"
proof -
  have observed: "calc_bounds example_layer = Inr example_layer"
    by (simp add: eval_step)
  from calc_bounds_single_pass [of example_layer]
  have "bounds_single_pass (all_data example_layer) = Some (data_bounds example_layer)"
    by (simp add: observed)
  then show ?thesis
    by (simp add: observed) (simp add: all_data_def example_layer_def)
qed

text \<open>
  C9. \<^verbatim>\<open>data_bounds\<close> is a list of two pairs, the first componentwise at most the second:
  the observer produces this shape, an assignment that changes the route establishes
  it, every assignment to an observed trait keeps it, and it holds after the
  constructor and any session of assignments.
\<close>

theorem data_bounds_ordered:
  "(\<exists>s'. calc_bounds s = Inr s' \<and> ordered_box (data_bounds s')) \<and>
   (all_data (state_of (step x s)) \<noteq> all_data s \<longrightarrow>
      ordered_box (data_bounds (state_of (step x s)))) \<and>
   (ordered_box (data_bounds s) \<longrightarrow> ordered_box (data_bounds (state_of (step x s)))) \<and>
   (\<forall>s0. snd (Directions_call a b c given) = Inr s0 \<longrightarrow> ordered_box (data_bounds (run ops s0)))"
proof (intro conjI allI impI)
  show "\<exists>s'. calc_bounds s = Inr s' \<and> ordered_box (data_bounds s')"
    by (simp add: calc_bounds_box bounding_box_ordered all_data_nonempty)
next
  assume "all_data (state_of (step x s)) \<noteq> all_data s"
  then have "data_bounds (state_of (step x s)) = bounding_box (all_data (state_of (step x s)))"
    using step_bounds [of x s] by auto
  then show "ordered_box (data_bounds (state_of (step x s)))"
    by (simp add: bounding_box_ordered all_data_nonempty)
next
  assume "ordered_box (data_bounds s)"
  then show "ordered_box (data_bounds (state_of (step x s)))"
    using step_bounds [of x s] by (auto simp: bounding_box_ordered all_data_nonempty)
next
  fix s0
  assume "snd (Directions_call a b c given) = Inr s0"
  then have "data_bounds s0 = bounding_box (all_data s0)"
    by (simp add: Directions_call_def Directions_init_established)
  then have "data_bounds (run ops s0) = bounding_box (all_data (run ops s0))"
    by (rule run_boxed)
  then show "ordered_box (data_bounds (run ops s0))"
    by (simp add: bounding_box_ordered all_data_nonempty)
qed

text \<open>Moving the end of the docstring's layer to (45, 5).\<close>

theorem data_bounds_ordered_witness:
  "all_data (state_of (step (Set_end (pt (45, 5))) example_layer)) \<noteq> all_data example_layer \<and>
   data_bounds (state_of (step (Set_end (pt (45, 5))) example_layer)) =
     [(45, 4.88969), (52.37403, 6.1)] \<and>
   ordered_box [(45, 4.88969), (52.37403, 6.1)]"
proof -
  have after: "state_of (step (Set_end (pt (45, 5))) example_layer) =
      example_layer\<lparr>end_point := (45, 5), data_bounds := [(45, 4.88969), (52.37403, 6.1)]\<rparr>"
    by (simp add: eval_step)
  have changed: "all_data (state_of (step (Set_end (pt (45, 5))) example_layer)) \<noteq>
      all_data example_layer"
    unfolding after by (simp add: all_data_def example_layer_def)
  with data_bounds_ordered [of example_layer "Set_end (pt (45, 5))"]
  have "ordered_box (data_bounds (state_of (step (Set_end (pt (45, 5))) example_layer)))"
    by blast
  then show ?thesis
    using changed unfolding after by simp
qed

text \<open>
  C2. For a list of at least two valid (latitude, longitude) pairs, the constructor called
  with the \<^verbatim>\<open>data\<close> argument alone succeeds and leaves the widget in canonical form:
  \<^verbatim>\<open>start\<close> is \<^verbatim>\<open>data[0]\<close>, \<^verbatim>\<open>end\<close> is \<^verbatim>\<open>data[-1]\<close>, \<^verbatim>\<open>waypoints\<close> is
  \<^verbatim>\<open>data[1:-1]\<close> (and the trait \<^verbatim>\<open>data\<close> itself is reset to \<^verbatim>\<open>None\<close>). Assigning the
  list to the trait \<^verbatim>\<open>data\<close> runs the observer whenever the trait changes: on any widget
  whose \<^verbatim>\<open>data\<close> differs from the list, and so on every widget as the constructor leaves
  it; the observer raises nothing and leaves the same canonical form.
\<close>

theorem data_normalized:
  assumes "2 \<le> length ps" and "list_all valid_point ps"
  shows "(\<exists>ev s0. Directions_call VNone VNone VNone (no_kwargs\<lparr>kw_data := Some (pts ps)\<rparr>) =
              (ev, Inr s0) \<and> normalized ps s0 \<and> data s0 = None) \<and>
         (data s \<noteq> Some (map pt ps) \<longrightarrow>
            raised (step (Set_data (pts ps)) s) = None \<and>
            normalized ps (state_of (step (Set_data (pts ps)) s))) \<and>
         (\<forall>s0. snd (Directions_call a b c given) = Inr s0 \<longrightarrow>
            raised (step (Set_data (pts ps)) s0) = None \<and>
            normalized ps (state_of (step (Set_data (pts ps)) s0)))"
proof -
  from assms(1) have ne: "ps \<noteq> []" by auto
  have assigned: "raised (step (Set_data (pts ps)) s') = None \<and>
      normalized ps (state_of (step (Set_data (pts ps)) s'))"
    if "data s' \<noteq> Some (map pt ps)" for s'
    using set_data_from_points [OF assms that] by (simp add: normalized_iff ne)
  have "\<exists>ev s0. Directions_call VNone VNone VNone (no_kwargs\<lparr>kw_data := Some (pts ps)\<rparr>) =
      (ev, Inr s0) \<and> normalized ps s0 \<and> data s0 = None"
    using construct_from_data [OF ne assms(2), of VNone] by (simp add: normalized_iff ne)
  moreover have "raised (step (Set_data (pts ps)) s0) = None \<and>
      normalized ps (state_of (step (Set_data (pts ps)) s0))"
    if "snd (Directions_call a b c given) = Inr s0" for s0
    using constructed_data [OF that] by (intro assigned) simp
  ultimately show ?thesis
    using assigned [of s] by blast
qed

text \<open>The three points of the docstring give the docstring's layer.\<close>

theorem data_normalized_witness:
  "2 \<le> length docstring_points \<and> list_all valid_point docstring_points \<and>
   snd (Directions_call VNone VNone VNone (no_kwargs\<lparr>kw_data := Some (pts docstring_points)\<rparr>)) =
     Inr example_layer \<and>
   normalized docstring_points example_layer"
proof -
  from data_normalized [OF docstring_points_ok(1) docstring_points_ok(2)]
  obtain ev s0 where
    "Directions_call VNone VNone VNone (no_kwargs\<lparr>kw_data := Some (pts docstring_points)\<rparr>) =
       (ev, Inr s0)" and "normalized docstring_points s0"
    by blast
  then show ?thesis
    by (simp add: docstring_construction docstring_points_ok)
qed

text \<open>
  C3. When \<^verbatim>\<open>layer_status\<close> changes to a value other than \<^verbatim>\<open>"OK"\<close>, the observer raises
  DirectionsServiceException with the message \<^verbatim>\<open>"No directions returned: "\<close> followed by the
  new value; when it changes to \<^verbatim>\<open>"OK"\<close>, nothing is raised. The new status is stored
  either way.
\<close>

theorem layer_status_raises_iff:
  assumes "v \<noteq> layer_status s"
  shows "(v \<noteq> ''OK'' \<longrightarrow>
            raised (step (Set_layer_status v) s) =
              Some (DirectionsServiceException (''No directions returned: '' @ v))) \<and>
         (v = ''OK'' \<longrightarrow> raised (step (Set_layer_status v) s) = None) \<and>
         (raised (step (Set_layer_status v) s) \<noteq> None \<longleftrightarrow> v \<noteq> ''OK'') \<and>
         raised (step (Set_layer_status v) s) = handle_layer_status v \<and>
         layer_status (state_of (step (Set_layer_status v) s)) = v"
  using assms
  by (simp add: set_layer_status_def raised_def state_of_def handle_layer_status_def)

text \<open>The status of the docstring (line 59), and the status of a success.\<close>

theorem layer_status_raises_iff_witness:
  "''MAX WAYPOINTS EXCEEDED'' \<noteq> layer_status example_layer \<and>
   raised (step (Set_layer_status ''MAX WAYPOINTS EXCEEDED'') example_layer) =
     Some (DirectionsServiceException ''No directions returned: MAX WAYPOINTS EXCEEDED'') \<and>
   ''OK'' \<noteq> layer_status example_layer \<and>
   raised (step (Set_layer_status ''OK'') example_layer) = None"
proof -
  have differ: "''MAX WAYPOINTS EXCEEDED'' \<noteq> layer_status example_layer"
    "''OK'' \<noteq> layer_status example_layer"
    by (simp_all add: example_layer_def)
  from layer_status_raises_iff [OF differ(1)] layer_status_raises_iff [OF differ(2)]
  show ?thesis
    using differ by simp
qed

text \<open>
  C4. For a list of at least two items, \<^verbatim>\<open>[start] + waypoints + [end]\<close> of the result of
  \<^verbatim>\<open>_destructure_data\<close> is the list itself: no point is lost and the order is kept. This
  holds of the items, of the Python values, and of the route that \<^verbatim>\<open>_calc_bounds\<close> reads
  from the widget constructed from the list.
\<close>

theorem destructure_roundtrip:
  assumes "2 \<le> length ps"
  shows "(\<exists>a b c. destructure_seq ps = Inr (a, b, c) \<and> [a] @ c @ [b] = ps) \<and>
         (\<exists>a b c. destructure_data (pts ps) = Inr (pt a, pt b, pts c) \<and> [a] @ c @ [b] = ps) \<and>
         (list_all valid_point ps \<longrightarrow>
            (\<exists>ev s0. Directions_call VNone VNone VNone (no_kwargs\<lparr>kw_data := Some (pts ps)\<rparr>) =
                (ev, Inr s0) \<and> all_data s0 = ps))"
proof -
  from assms have ne: "ps \<noteq> []" by auto
  have whole: "[hd ps] @ butlast (tl ps) @ [last ps] = ps"
    using assms by (rule roundtrip)
  have "\<exists>a b c. destructure_seq ps = Inr (a, b, c) \<and> [a] @ c @ [b] = ps"
    using whole by (simp add: destructure_seq_nonempty ne)
  moreover have "\<exists>a b c. destructure_data (pts ps) = Inr (pt a, pt b, pts c) \<and> [a] @ c @ [b] = ps"
    using whole destructure_data_pts [OF ne] by blast
  moreover have "\<exists>ev s0. Directions_call VNone VNone VNone
        (no_kwargs\<lparr>kw_data := Some (pts ps)\<rparr>) = (ev, Inr s0) \<and> all_data s0 = ps"
    if "list_all valid_point ps"
    using whole construct_from_data [OF ne that, of VNone] by (simp add: all_data_def)
  ultimately show ?thesis by blast
qed

text \<open>The three points of the docstring.\<close>

theorem destructure_roundtrip_witness:
  "2 \<le> length docstring_points \<and>
   destructure_seq docstring_points =
     Inr ((46.2, 6.1), (47.4, 8.5), [(52.37403, 4.88969)]) \<and>
   [(46.2, 6.1)] @ [(52.37403, 4.88969)] @ [(47.4, 8.5)] = docstring_points"
proof -
  from destructure_roundtrip [OF docstring_points_ok(1)]
  have "\<exists>a b c. destructure_seq docstring_points = Inr (a, b, c) \<and>
      [a] @ c @ [b] = docstring_points"
    by blast
  then show ?thesis
    by (simp add: docstring_points_ok destructure_seq_nonempty) (simp add: docstring_points_def)
qed

text \<open>
  C5. A point is valid when its latitude lies in [-90, 90] and its longitude in
  [-180, 180]. An assignment to \<^verbatim>\<open>start\<close> or \<^verbatim>\<open>end\<close> of a pair that is not valid, or to
  \<^verbatim>\<open>waypoints\<close> of a list with a pair that is not valid, raises TraitError and leaves the
  widget as it was. Every assignment to an observed trait keeps a route of valid points
  valid, and the route is valid after the constructor and any session of assignments.
  The trait types are modelled from the spec.
\<close>

theorem invalid_coordinates_rejected:
  "(valid_point (lat, lon) \<longleftrightarrow> lat \<in> {- 90 .. 90} \<and> lon \<in> {- 180 .. 180}) \<and>
   (\<not> valid_point p \<longrightarrow>
      step (Set_start (pt p)) s = ([], Some TraitError, s) \<and>
      step (Set_end (pt p)) s = ([], Some TraitError, s)) \<and>
   (\<not> list_all valid_point ps \<longrightarrow> step (Set_waypoints (pts ps)) s = ([], Some TraitError, s)) \<and>
   (valid_route s \<longrightarrow> valid_route (state_of (step x s))) \<and>
   (\<forall>s0. snd (Directions_call a b c given) = Inr s0 \<longrightarrow> valid_route (run ops s0))"
proof (intro conjI allI impI)
  show "valid_point (lat, lon) \<longleftrightarrow> lat \<in> {- 90 .. 90} \<and> lon \<in> {- 180 .. 180}"
    by (auto simp: valid_point_def)
next
  assume "\<not> valid_point p"
  then show "step (Set_start (pt p)) s = ([], Some TraitError, s)"
    and "step (Set_end (pt p)) s = ([], Some TraitError, s)"
    by (simp_all add: set_start_def set_end_def Point_validate_pt)
next
  assume "\<not> list_all valid_point ps"
  then show "step (Set_waypoints (pts ps)) s = ([], Some TraitError, s)"
    by (simp add: set_waypoints_def assign_waypoints_def LocationArray_validate_pts)
next
  assume "valid_route s"
  then show "valid_route (state_of (step x s))"
    by (rule step_valid)
next
  fix s0
  assume "snd (Directions_call a b c given) = Inr s0"
  then have "valid_route s0"
    by (simp add: Directions_call_def Directions_init_established)
  then show "valid_route (run ops s0)"
    by (rule run_valid)
qed

text \<open>A latitude of 91, a longitude of -181 and a latitude of -90.5 on the docstring's layer.\<close>

theorem invalid_coordinates_rejected_witness:
  "\<not> valid_point (91, 6.1) \<and>
   step (Set_start (pt (91, 6.1))) example_layer = ([], Some TraitError, example_layer) \<and>
   \<not> valid_point (47.4, - 181) \<and>
   step (Set_end (pt (47.4, - 181))) example_layer = ([], Some TraitError, example_layer) \<and>
   \<not> list_all valid_point [(52.37403, 4.88969), (- 90.5, 0)] \<and>
   step (Set_waypoints (pts [(52.37403, 4.88969), (- 90.5, 0)])) example_layer =
     ([], Some TraitError, example_layer) \<and>
   valid_route example_layer \<and>
   valid_route (state_of (step (Set_start (pt (40, 7))) example_layer))"
proof -
  have bad: "\<not> valid_point (91, 6.1)" "\<not> valid_point (47.4, - 181)"
    "\<not> list_all valid_point [(52.37403, 4.88969), (- 90.5, 0)]"
    by (simp_all add: valid_point_def)
  have good: "valid_route example_layer"
    by (simp add: valid_route_def all_data_def example_layer_def valid_point_def)
  from invalid_coordinates_rejected [of _ _ "(91, 6.1)" example_layer]
    invalid_coordinates_rejected [of _ _ "(47.4, - 181)" example_layer]
    invalid_coordinates_rejected [of _ _ _ example_layer "[(52.37403, 4.88969), (- 90.5, 0)]"]
    invalid_coordinates_rejected [of _ _ _ example_layer _ "Set_start (pt (40, 7))"]
  show ?thesis
    using bad good by blast
qed

text \<open>
  C6. An assignment to the trait \<^verbatim>\<open>data\<close>, and the observer \<^verbatim>\<open>_on_data_change\<close> that it
  runs, leave \<^verbatim>\<open>travel_mode\<close>, \<^verbatim>\<open>avoid_ferries\<close>, \<^verbatim>\<open>avoid_highways\<close>, \<^verbatim>\<open>avoid_tolls\<close> and
  \<^verbatim>\<open>optimize_waypoints\<close> (and \<^verbatim>\<open>layer_status\<close>) as they were, whatever the value assigned.
\<close>

theorem data_change_frame:
  "travel_mode (state_of (step (Set_data v) s)) = travel_mode s \<and>
   avoid_ferries (state_of (step (Set_data v) s)) = avoid_ferries s \<and>
   avoid_highways (state_of (step (Set_data v) s)) = avoid_highways s \<and>
   avoid_tolls (state_of (step (Set_data v) s)) = avoid_tolls s \<and>
   optimize_waypoints (state_of (step (Set_data v) s)) = optimize_waypoints s \<and>
   layer_status (state_of (step (Set_data v) s)) = layer_status s \<and>
   travel_mode (state_of (on_data_change new s)) = travel_mode s \<and>
   avoid_ferries (state_of (on_data_change new s)) = avoid_ferries s \<and>
   avoid_highways (state_of (on_data_change new s)) = avoid_highways s \<and>
   avoid_tolls (state_of (on_data_change new s)) = avoid_tolls s \<and>
   optimize_waypoints (state_of (on_data_change new s)) = optimize_waypoints s \<and>
   layer_status (state_of (on_data_change new s)) = layer_status s"
  using set_data_frame [of v s] on_data_change_frame [of new s] by simp

text \<open>Assigning two points to \<^verbatim>\<open>data\<close> of the docstring's layer.\<close>

theorem data_change_frame_witness:
  "start (state_of (step (Set_data (pts [(1, 2), (3, 4)])) example_layer)) = (1, 2) \<and>
   end_point (state_of (step (Set_data (pts [(1, 2), (3, 4)])) example_layer)) = (3, 4) \<and>
   waypoints (state_of (step (Set_data (pts [(1, 2), (3, 4)])) example_layer)) = [] \<and>
   data_bounds (state_of (step (Set_data (pts [(1, 2), (3, 4)])) example_layer)) =
     [(1, 2), (3, 4)] \<and>
   travel_mode (state_of (step (Set_data (pts [(1, 2), (3, 4)])) example_layer)) = ''DRIVING'' \<and>
   avoid_ferries (state_of (step (Set_data (pts [(1, 2), (3, 4)])) example_layer)) = False \<and>
   avoid_highways (state_of (step (Set_data (pts [(1, 2), (3, 4)])) example_layer)) = False \<and>
   avoid_tolls (state_of (step (Set_data (pts [(1, 2), (3, 4)])) example_layer)) = False \<and>
   optimize_waypoints (state_of (step (Set_data (pts [(1, 2), (3, 4)])) example_layer)) = False"
proof -
  have after: "state_of (step (Set_data (pts [(1, 2), (3, 4)])) example_layer) =
      example_layer\<lparr>start := (1, 2), end_point := (3, 4), waypoints := [],
        data := Some [pt (1, 2), pt (3, 4)], data_bounds := [(1, 2), (3, 4)]\<rparr>"
    by (simp add: eval_step)
  have route: "start (state_of (step (Set_data (pts [(1, 2), (3, 4)])) example_layer)) = (1, 2)"
    "end_point (state_of (step (Set_data (pts [(1, 2), (3, 4)])) example_layer)) = (3, 4)"
    "waypoints (state_of (step (Set_data (pts [(1, 2), (3, 4)])) example_layer)) = []"
    "data_bounds (state_of (step (Set_data (pts [(1, 2), (3, 4)])) example_layer)) =
       [(1, 2), (3, 4)]"
    unfolding after by simp_all
  from data_change_frame [of "pts [(1, 2), (3, 4)]" example_layer]
  show ?thesis
    using route by (simp add: example_layer_def)
qed

text \<open>
  C8. In a call with a \<^verbatim>\<open>data\<close> that is not \<^verbatim>\<open>None\<close>, the argument \<^verbatim>\<open>waypoints\<close> is
  discarded: the call gives what the call without it gives (so it raises no ValueError
  for the conflict), and with a non-empty list of valid points it succeeds with
  \<^verbatim>\<open>data[1:-1]\<close> as waypoints. A \<^verbatim>\<open>start\<close> or an \<^verbatim>\<open>end\<close> that is not \<^verbatim>\<open>None\<close> raises
  ValueError after the deprecation warning, and no widget is made.
\<close>

theorem data_discards_waypoints:
  "(get (kw_data given) \<noteq> VNone \<longrightarrow>
      Directions_call VNone VNone w given = Directions_call VNone VNone VNone given \<and>
      (a \<noteq> VNone \<or> b \<noteq> VNone \<longrightarrow>
         Directions_call a b w given = ([warn_obsolete_data], Inl (ValueError conflict_message)))) \<and>
   (ps \<noteq> [] \<and> list_all valid_point ps \<longrightarrow>
      (\<exists>ev s0. Directions_call VNone VNone w (no_kwargs\<lparr>kw_data := Some (pts ps)\<rparr>) = (ev, Inr s0) \<and>
         waypoints s0 = py_slice ps 1 (- 1)))"
proof (intro conjI impI)
  assume given: "get (kw_data given) \<noteq> VNone"
  show "Directions_call VNone VNone w given = Directions_call VNone VNone VNone given"
    by (simp add: data_branch [OF given])
  assume "a \<noteq> VNone \<or> b \<noteq> VNone"
  then show "Directions_call a b w given =
      ([warn_obsolete_data], Inl (ValueError conflict_message))"
    by (auto simp: data_branch [OF given])
next
  assume "ps \<noteq> [] \<and> list_all valid_point ps"
  then show "\<exists>ev s0. Directions_call VNone VNone w (no_kwargs\<lparr>kw_data := Some (pts ps)\<rparr>) =
      (ev, Inr s0) \<and> waypoints s0 = py_slice ps 1 (- 1)"
    using construct_from_data [of ps w] by (simp add: py_slice_inner)
qed

text \<open>The docstring's points as \<^verbatim>\<open>data\<close>, with a waypoint and with a start.\<close>

theorem data_discards_waypoints_witness:
  "get (kw_data (no_kwargs\<lparr>kw_data := Some (pts docstring_points)\<rparr>)) \<noteq> VNone \<and>
   Directions_call VNone VNone (pts [(0, 0)]) (no_kwargs\<lparr>kw_data := Some (pts docstring_points)\<rparr>) =
     ([warn_obsolete_data, Print ''validating''], Inr example_layer) \<and>
   waypoints example_layer = [(52.37403, 4.88969)] \<and>
   Directions_call (pt (46.2, 6.1)) VNone VNone (no_kwargs\<lparr>kw_data := Some (pts docstring_points)\<rparr>) =
     ([warn_obsolete_data], Inl (ValueError conflict_message))"
proof -
  have given: "get (kw_data (no_kwargs\<lparr>kw_data := Some (pts docstring_points)\<rparr>)) \<noteq> VNone"
    by (simp add: get_def pts_def)
  have start: "pt (46.2, 6.1) \<noteq> VNone"
    by (simp add: pt_def)
  from data_discards_waypoints
    [of "no_kwargs\<lparr>kw_data := Some (pts docstring_points)\<rparr>" _ "pt (46.2, 6.1)" VNone]
  have "Directions_call (pt (46.2, 6.1)) VNone VNone
      (no_kwargs\<lparr>kw_data := Some (pts docstring_points)\<rparr>) =
      ([warn_obsolete_data], Inl (ValueError conflict_message))"
    using given start by blast
  then show ?thesis
    using given by (simp add: docstring_construction) (simp add: example_layer_def)
qed

text \<open>
  C10. The constructor gives the same result for \<^verbatim>\<open>waypoints=None\<close> (or no \<^verbatim>\<open>waypoints\<close>)
  as for \<^verbatim>\<open>waypoints=[]\<close>, after one more deprecation warning when \<^verbatim>\<open>data\<close> is not
  given. The validator \<^verbatim>\<open>_valid_waypoints\<close> turns the proposal \<^verbatim>\<open>None\<close> into the empty list
  after the warning, so assigning \<^verbatim>\<open>None\<close> to the trait leaves the state that assigning
  \<^verbatim>\<open>[]\<close> leaves, with \<^verbatim>\<open>waypoints\<close> the empty list, for every trait type that lets
  \<^verbatim>\<open>None\<close> through to the validator and accepts the empty list, as the modelled one does.
\<close>

theorem waypoints_none_is_empty_list:
  "snd (Directions_call a b VNone given) = snd (Directions_call a b (VList []) given) \<and>
   (get (kw_data given) = VNone \<longrightarrow>
      fst (Directions_call a b VNone given) =
        warn_obsolete_waypoints # fst (Directions_call a b (VList []) given)) \<and>
   valid_waypoints None = ([Print ''validating'', warn_obsolete_waypoints], []) \<and>
   snd (valid_waypoints None) = snd (valid_waypoints (Some [])) \<and>
   (trait_type VNone = Inr None \<and> trait_type (VList []) = Inr (Some []) \<longrightarrow>
      state_of (assign_waypoints trait_type VNone s) =
        state_of (assign_waypoints trait_type (VList []) s) \<and>
      raised (assign_waypoints trait_type VNone s) = None \<and>
      waypoints (state_of (assign_waypoints trait_type VNone s)) = []) \<and>
   state_of (step (Set_waypoints VNone) s) = state_of (step (Set_waypoints (VList [])) s) \<and>
   raised (step (Set_waypoints VNone) s) = None \<and>
   raised (step (Set_waypoints (VList [])) s) = None \<and>
   fst (step (Set_waypoints VNone) s) =
     fst (step (Set_waypoints (VList [])) s) @ [warn_obsolete_waypoints] \<and>
   waypoints (state_of (step (Set_waypoints VNone) s)) = []"
proof -
  have call: "snd (Directions_call a b VNone given) = snd (Directions_call a b (VList []) given)"
    by (cases "get (kw_data given) = VNone") (simp_all add: data_branch other_branch snd_after)
  have events: "fst (Directions_call a b VNone given) =
      warn_obsolete_waypoints # fst (Directions_call a b (VList []) given)"
    if "get (kw_data given) = VNone"
    by (simp add: other_branch [OF that] after_def)
  have general: "state_of (assign_waypoints trait_type VNone s) =
        state_of (assign_waypoints trait_type (VList []) s)"
    "raised (assign_waypoints trait_type VNone s) = None"
    "waypoints (state_of (assign_waypoints trait_type VNone s)) = []"
    if "trait_type VNone = Inr None \<and> trait_type (VList []) = Inr (Some [])"
    using that by (simp_all add: assign_none state_of_def raised_def)
  have modelled: "state_of (set_waypoints VNone s) = state_of (set_waypoints (VList []) s)"
    "raised (set_waypoints VNone s) = None" "raised (set_waypoints (VList []) s) = None"
    "fst (set_waypoints VNone s) = fst (set_waypoints (VList []) s) @ [warn_obsolete_waypoints]"
    "waypoints (state_of (set_waypoints VNone s)) = []"
    by (simp_all add: set_waypoints_def assign_none [OF LocationArray_validate_none]
        state_of_def raised_def)
  have validator: "valid_waypoints None = ([Print ''validating'', warn_obsolete_waypoints], [])"
    "snd (valid_waypoints None) = snd (valid_waypoints (Some []))"
    by (simp_all add: valid_waypoints_def)
  show ?thesis
    unfolding step.simps
    by (intro conjI impI call events general modelled validator) simp_all
qed

text \<open>The docstring's start and end without waypoints, and its layer.\<close>

theorem waypoints_none_is_empty_list_witness:
  "snd (Directions_call (pt (46.2, 6.1)) (pt (47.4, 8.5)) VNone no_kwargs) =
     Inr (example_layer\<lparr>waypoints := [], data_bounds := [(46.2, 6.1), (47.4, 8.5)]\<rparr>) \<and>
   snd (Directions_call (pt (46.2, 6.1)) (pt (47.4, 8.5)) (VList []) no_kwargs) =
     Inr (example_layer\<lparr>waypoints := [], data_bounds := [(46.2, 6.1), (47.4, 8.5)]\<rparr>) \<and>
   state_of (step (Set_waypoints VNone) example_layer) =
     example_layer\<lparr>waypoints := [], data_bounds := [(46.2, 6.1), (47.4, 8.5)]\<rparr> \<and>
   state_of (step (Set_waypoints (VList [])) example_layer) =
     example_layer\<lparr>waypoints := [], data_bounds := [(46.2, 6.1), (47.4, 8.5)]\<rparr>"
proof -
  have built: "snd (Directions_call (pt (46.2, 6.1)) (pt (47.4, 8.5)) (VList []) no_kwargs) =
      Inr (example_layer\<lparr>waypoints := [], data_bounds := [(46.2, 6.1), (47.4, 8.5)]\<rparr>)"
    by (simp add: Directions_call_def Directions_init_def no_kwargs_def get_def after_def
        super_init_def or_default_def DEFAULT_TRAVEL_MODE_def validate_each.simps eval_step)
  have assigned: "state_of (step (Set_waypoints (VList [])) example_layer) =
      example_layer\<lparr>waypoints := [], data_bounds := [(46.2, 6.1), (47.4, 8.5)]\<rparr>"
    by (simp add: eval_step)
  from waypoints_none_is_empty_list
    [of "pt (46.2, 6.1)" "pt (47.4, 8.5)" no_kwargs LocationArray_validate example_layer]
  show ?thesis
    using built assigned by simp
qed

end
